theory Spec2Isabelle
  imports Complex_Main
begin

section \<open>Python strings\<close>

text \<open>
  A Python \<open>str\<close> is modelled as a \<open>string\<close>; a \<open>char\<close> stands for a code point
  below 256 (Latin-1), so the development covers scripts over that alphabet. Within it,
  \<open>str.isspace\<close>, and with it \<open>str.strip()\<close> and the regular-expression class \<open>\s\<close>, hold
  of the code points 9-13, 28-32, 133 and 160; \<open>\d\<close> holds of the ASCII digits only, and
  \<open>re.IGNORECASE\<close> identifies an ASCII letter with its other case and with nothing else.
\<close>

definition is_space :: "char \<Rightarrow> bool" where
  "is_space c =
     (let n = (of_char c :: nat)
      in (9 \<le> n \<and> n \<le> 13) \<or> (28 \<le> n \<and> n \<le> 32) \<or> n = 133 \<or> n = 160)"

definition is_digit :: "char \<Rightarrow> bool" where
  "is_digit c = (let n = (of_char c :: nat) in 48 \<le> n \<and> n \<le> 57)"

definition is_upper :: "char \<Rightarrow> bool" where
  "is_upper c = (let n = (of_char c :: nat) in 65 \<le> n \<and> n \<le> 90)"

definition is_lower :: "char \<Rightarrow> bool" where
  "is_lower c = (let n = (of_char c :: nat) in 97 \<le> n \<and> n \<le> 122)"

definition ascii_lower :: "char \<Rightarrow> char" where
  "ascii_lower c = (if is_upper c then char_of ((of_char c :: nat) + 32) else c)"

text \<open>\<open>s.strip()\<close>: leading and trailing white space removed.\<close>

definition strip :: "string \<Rightarrow> string" where
  "strip s = rev (dropWhile is_space (rev (dropWhile is_space s)))"

text \<open>\<open>s.split('\n')\<close>: always at least one piece; the pieces hold no line feed.\<close>

fun split_nl :: "string \<Rightarrow> string list" where
  "split_nl [] = [[]]"
| "split_nl (c # cs) =
     (if c = CHR 0x0A then [] # split_nl cs
      else (case split_nl cs of [] \<Rightarrow> [[c]] | l # ls \<Rightarrow> (c # l) # ls))"

text \<open>\<open>int(s)\<close> on a string of ASCII digits, and \<open>str(n)\<close> for a natural number.\<close>

definition int_of_digits :: "string \<Rightarrow> nat" where
  "int_of_digits ds = foldl (\<lambda>acc c. 10 * acc + ((of_char c :: nat) - 48)) 0 ds"

definition digit_char :: "nat \<Rightarrow> char" where
  "digit_char d = char_of (48 + d)"

fun str_nat :: "nat \<Rightarrow> string" where
  "str_nat n = (if n < 10 then [digit_char n] else str_nat (n div 10) @ [digit_char (n mod 10)])"

declare str_nat.simps [simp del]

text \<open>The format specification \<open>{n:0wd}\<close> for \<open>n \<ge> 0\<close>: zeros on the left up to width \<open>w\<close>.\<close>

definition zero_pad :: "nat \<Rightarrow> nat \<Rightarrow> string" where
  "zero_pad w n = replicate (w - length (str_nat n)) (CHR ''0'') @ str_nat n"

text \<open>A literal prefix under \<open>re.IGNORECASE\<close>; the literal \<open>p\<close> is given in lower case.\<close>

definition iprefix :: "string \<Rightarrow> string \<Rightarrow> bool" where
  "iprefix p s = (length p \<le> length s \<and> map ascii_lower (take (length p) s) = p)"

section \<open>The line patterns of the parser\<close>

text \<open>
  Each pattern of \<open>parse_script\<close> is matched with \<open>re.match\<close> against a whole line (\<open>^...$\<close>;
  a line holds no line feed, so \<open>.\<close> matches every character of it). The functions below
  return the groups of the match the backtracking matcher finds first, or \<open>None\<close>.

  \<open>\s*(.+)$\<close>, the tail of three patterns: the greedy \<open>\s*\<close> takes all leading white
  space and \<open>(.+)\<close> the rest; when nothing is left, \<open>\s*\<close> gives its last character back.
\<close>

definition ws_then_rest :: "string \<Rightarrow> string option" where
  "ws_then_rest r =
     (let r' = dropWhile is_space r
      in if r' \<noteq> [] then Some r' else if r \<noteq> [] then Some [last r] else None)"

text \<open>
  \<open>^Scene\s+(\d+)[:\-]?\s*(.*)$\<close> with \<open>re.IGNORECASE\<close>. Every part after \<open>(\d+)\<close> can
  match the empty string and \<open>(.*)$\<close> takes whatever is left, so each greedy part keeps its
  longest match: groups 1 and 2 are the full run of digits and the text after the optional
  separator and the white space.
\<close>

definition scene_match :: "string \<Rightarrow> (string \<times> string) option" where
  "scene_match line =
     (if \<not> iprefix ''scene'' line then None
      else let r = drop 5 line;
               r1 = dropWhile is_space r;
               ds = takeWhile is_digit r1;
               r2 = dropWhile is_digit r1;
               r3 = (case r2 of [] \<Rightarrow> []
                     | c # cs \<Rightarrow> if c = CHR '':'' \<or> c = CHR ''-'' then cs else r2)
           in if r = [] \<or> \<not> is_space (hd r) \<or> ds = [] then None
              else Some (ds, dropWhile is_space r3))"

text \<open>\<open>^Narration:\s*(.+)$\<close> with \<open>re.IGNORECASE\<close>.\<close>

definition narration_match :: "string \<Rightarrow> string option" where
  "narration_match line =
     (if iprefix ''narration:'' line then ws_then_rest (drop 10 line) else None)"

text \<open>
  \<open>^([A-Z][A-Za-z\s]+?):\s*(.+)$\<close>, case sensitive. The class of the speaker excludes the
  colon, so the lazy group 1 can only end at the first colon of the line: it is the text
  before that colon, one upper-case letter followed by at least one letter or white space.
\<close>

definition is_name_char :: "char \<Rightarrow> bool" where
  "is_name_char c = (is_upper c \<or> is_lower c \<or> is_space c)"

definition dialogue_match :: "string \<Rightarrow> (string \<times> string) option" where
  "dialogue_match line =
     (case line of [] \<Rightarrow> None
      | c # cs \<Rightarrow>
          let body = takeWhile (\<lambda>x. x \<noteq> CHR '':'') cs;
              after = dropWhile (\<lambda>x. x \<noteq> CHR '':'') cs
          in if is_upper c \<and> body \<noteq> [] \<and> list_all is_name_char body \<and> after \<noteq> []
             then (case ws_then_rest (tl after) of None \<Rightarrow> None
                   | Some t \<Rightarrow> Some (c # body, t))
             else None)"

text \<open>
  \<open>^Visual[:\-]?\s*(.+)$\<close> with \<open>re.IGNORECASE\<close>. The optional separator is taken when it
  is there; if nothing follows it, the matcher backtracks and the separator itself becomes
  the group.
\<close>

definition visual_match :: "string \<Rightarrow> string option" where
  "visual_match line =
     (if \<not> iprefix ''visual'' line then None
      else let r = drop 6 line
           in (case r of [] \<Rightarrow> None
               | c # cs \<Rightarrow>
                   if c = CHR '':'' \<or> c = CHR ''-''
                   then (case ws_then_rest cs of Some t \<Rightarrow> Some t | None \<Rightarrow> ws_then_rest r)
                   else ws_then_rest r))"

text \<open>
  \<open>^Duration[:\-]?\s*(\d+(?:\.\d+)?)\s*(?:seconds?|sec|s)?$\<close> with \<open>re.IGNORECASE\<close>. No
  part can match what the part before it gave up, so every part keeps its longest match;
  what is left after the number and the white space must be empty or one of the units.
\<close>

definition duration_match :: "string \<Rightarrow> string option" where
  "duration_match line =
     (if \<not> iprefix ''duration'' line then None
      else let r = drop 8 line;
               r0 = (case r of [] \<Rightarrow> []
                     | c # cs \<Rightarrow> if c = CHR '':'' \<or> c = CHR ''-'' then cs else r);
               r1 = dropWhile is_space r0;
               d1 = takeWhile is_digit r1;
               r2 = dropWhile is_digit r1;
               frac = (case r2 of [] \<Rightarrow> []
                       | c # cs \<Rightarrow> if c = CHR ''.'' \<and> takeWhile is_digit cs \<noteq> []
                                 then c # takeWhile is_digit cs else []);
               r3 = dropWhile is_space (drop (length frac) r2);
               unit = map ascii_lower r3
           in if d1 \<noteq> [] \<and> unit \<in> set ['''', ''seconds'', ''second'', ''sec'', ''s'']
              then Some (d1 @ frac) else None)"

text \<open>
  \<open>float(s)\<close> on \<open>digits\<close> or \<open>digits.digits\<close>. A Python float is modelled by the rational
  number the numeral denotes; the rounding to a binary double is not modelled.
\<close>

definition py_float :: "string \<Rightarrow> rat" where
  "py_float s =
     (let ip = takeWhile is_digit s;
          fp = drop (Suc (length ip)) s
      in of_nat (int_of_digits ip) + of_nat (int_of_digits fp) / of_nat (10 ^ length fp))"

section \<open>The script parser (\<open>src/pipeline/parser.py\<close>)\<close>

text \<open>
  A scene is a Python dictionary with a fixed set of keys. The keys \<open>start_cue\<close> and
  \<open>duration_hint\<close> are optional: such a key is missing from the dictionary (\<open>Absent\<close>),
  holds \<open>None\<close> (\<open>Null\<close>), or holds a value.
\<close>

datatype 'a optional = Absent | Null | Present 'a

record scene =
  scene_id :: string
  start_cue :: "string optional"
  description :: string
  characters :: "string list"
  dialogue :: "(string \<times> string) list"
  visual_prompts :: "string list"
  duration_hint :: "rat optional"

text \<open>
  Both failures of \<open>parse_script\<close> are a \<open>ValueError\<close>; they differ in the message:
  \<open>EmptyInputError\<close> is "Script text is empty or contains only whitespace" and
  \<open>NoScenesFoundError\<close> is "No scenes found in script. ...".
\<close>

datatype parse_error = EmptyInputError | NoScenesFoundError

text \<open>The dictionary literal of lines 63-71 and 78-86.\<close>

definition new_scene :: "string \<Rightarrow> string \<Rightarrow> scene" where
  "new_scene sid desc =
     \<lparr>scene_id = sid, start_cue = Null, description = desc, characters = [],
      dialogue = [], visual_prompts = [], duration_hint = Null\<rparr>"

text \<open>The format strings \<open>f"scene_{n:02d}"\<close> and \<open>f"Scene {n}"\<close>.\<close>

definition scene_id_of :: "nat \<Rightarrow> string" where
  "scene_id_of n = ''scene_'' @ zero_pad 2 n"

definition scene_title_of :: "nat \<Rightarrow> string" where
  "scene_title_of n = ''Scene '' @ str_nat n"

text \<open>\<open>_finalize_scene(scene, scene_num)\<close>, in the order of its five statements.\<close>

definition finalize_scene :: "scene \<Rightarrow> nat \<Rightarrow> scene" where
  "finalize_scene sc scene_num =
     (let s1 = (if scene_id sc = [] then sc\<lparr>scene_id := scene_id_of scene_num\<rparr> else sc);
          s2 = (if description s1 = [] then s1\<lparr>description := scene_title_of scene_num\<rparr>
                else s1);
          s3 = (if visual_prompts s2 = [] then s2\<lparr>visual_prompts := [description s2]\<rparr>
                else s2);
          s4 = (case start_cue s3 of Present v \<Rightarrow> s3 | _ \<Rightarrow> s3\<lparr>start_cue := Absent\<rparr>);
          s5 = (case duration_hint s4 of Present v \<Rightarrow> s4
                | _ \<Rightarrow> s4\<lparr>duration_hint := Absent\<rparr>)
      in s5)"

text \<open>
  The state of the loop of \<open>parse_script\<close>: the finished scenes, the open scene
  (\<open>None\<close> when there is none) and the scene counter.
\<close>

record pstate =
  scenes :: "scene list"
  current_scene :: "scene option"
  scene_counter :: nat

definition init_pstate :: pstate where
  "init_pstate = \<lparr>scenes = [], current_scene = None, scene_counter = 0\<rparr>"

text \<open>
  \<open>scenes.append(_finalize_scene(current_scene, scene_counter))\<close> under
  \<open>if current_scene:\<close> (a scene dictionary is never empty, so it is true whenever a
  scene is open).
\<close>

definition close_scene :: "pstate \<Rightarrow> scene list" where
  "close_scene st =
     (case current_scene st of None \<Rightarrow> scenes st
      | Some cs \<Rightarrow> scenes st @ [finalize_scene cs (scene_counter st)])"

text \<open>Lines 88-137: a line that is neither blank nor a scene marker, in an open scene.\<close>

definition content_line :: "scene \<Rightarrow> string \<Rightarrow> scene" where
  "content_line cs line =
     (case narration_match line of
        Some g \<Rightarrow>
          let narration_text = strip g
          in cs\<lparr>description := narration_text,
                visual_prompts := (if visual_prompts cs = []
                                   then visual_prompts cs @ [narration_text]
                                   else visual_prompts cs)\<rparr>
      | None \<Rightarrow>
     (case dialogue_match line of
        Some (g1, g2) \<Rightarrow>
          let speaker = strip g1; txt = strip g2
          in cs\<lparr>characters := (if speaker \<notin> set (characters cs)
                               then characters cs @ [speaker] else characters cs),
                dialogue := dialogue cs @ [(speaker, txt)]\<rparr>
      | None \<Rightarrow>
     (case visual_match line of
        Some g \<Rightarrow> cs\<lparr>visual_prompts := visual_prompts cs @ [strip g]\<rparr>
      | None \<Rightarrow>
     (case duration_match line of
        Some g \<Rightarrow> cs\<lparr>duration_hint := Present (py_float g)\<rparr>
      | None \<Rightarrow>
          if description cs = []
          then cs\<lparr>description := line,
                  visual_prompts := (if visual_prompts cs = []
                                     then visual_prompts cs @ [line]
                                     else visual_prompts cs)\<rparr>
          else cs\<lparr>description := description cs @ '' '' @ line\<rparr>))))"

text \<open>One iteration of the \<open>while\<close> loop (lines 40-139) on the line \<open>lines[i]\<close>.\<close>

definition process_line :: "pstate \<Rightarrow> string \<Rightarrow> pstate" where
  "process_line st raw =
     (let line = strip raw
      in if line = []
         then (case current_scene st of None \<Rightarrow> st
               | Some cs \<Rightarrow> st\<lparr>scenes := close_scene st, current_scene := None\<rparr>)
         else
           (case scene_match line of
              Some (g1, g2) \<Rightarrow>
                let scene_num = int_of_digits g1;
                    scene_title = strip g2
                in \<lparr>scenes = close_scene st,
                    current_scene = Some (new_scene (scene_id_of scene_num)
                       (if scene_title \<noteq> [] then scene_title else scene_title_of scene_num)),
                    scene_counter = scene_counter st + 1\<rparr>
            | None \<Rightarrow>
                (case current_scene st of
                   None \<Rightarrow>
                     \<lparr>scenes = scenes st,
                      current_scene = Some (content_line
                         (new_scene (scene_id_of (scene_counter st + 1)) []) line),
                      scene_counter = scene_counter st + 1\<rparr>
                 | Some cs \<Rightarrow> st\<lparr>current_scene := Some (content_line cs line)\<rparr>)))"

text \<open>
  The loop over all lines, the last lines of \<open>parse_script\<close> (145-148: an empty list of
  scenes is the error, any other list is returned) and \<open>parse_script\<close> itself.
\<close>

definition scan_lines :: "string list \<Rightarrow> pstate" where
  "scan_lines ls = foldl process_line init_pstate ls"

definition return_scenes :: "scene list \<Rightarrow> parse_error + scene list" where
  "return_scenes result = (if result = [] then Inl NoScenesFoundError else Inr result)"

definition parse_script :: "string \<Rightarrow> parse_error + scene list" where
  "parse_script script_text =
     (if script_text = [] \<or> strip script_text = [] then Inl EmptyInputError
      else return_scenes (close_scene (scan_lines (split_nl script_text))))"

text \<open>
  The state of a scene after finalization: the description and the visual prompts are
  not empty, and no optional key holds \<open>None\<close>.
\<close>

definition finalized :: "scene \<Rightarrow> bool" where
  "finalized s = (description s \<noteq> [] \<and> visual_prompts s \<noteq> [] \<and> start_cue s \<noteq> Null \<and> duration_hint s \<noteq> Null)"





section \<open>The frame renderer (\<open>src/pipeline/visual_gen.py\<close>)\<close>




text \<open>\<open>os.path.join(a, b)\<close> on POSIX paths.\<close>

definition path_join :: "string \<Rightarrow> string \<Rightarrow> string" where
  "path_join a b =
     (if b \<noteq> [] \<and> hd b = CHR ''/'' then b
      else if a = [] \<or> last a = CHR ''/'' then a @ b
      else a @ ''/'' @ b)"


text \<open>The file name \<open>f"frame_{i:06d}.png"\<close> and the key \<open>_get_cache_key(prompt)\<close>.\<close>

definition frame_name :: "nat \<Rightarrow> string" where
  "frame_name i = ''frame_'' @ zero_pad 6 i @ ''.png''"















section \<open>Exceptions and external tools\<close>

text \<open>
  A Python exception an operation can raise, with its message \<open>str(e)\<close>. \<open>ImportError\<close>
  stands for that class and its subclasses; \<open>OtherException\<close> is any other subclass of
  \<open>Exception\<close>.
\<close>

datatype exn =
    ValueError string
  | RuntimeError string
  | ImportError string
  | CalledProcessError string
  | FileNotFoundError string
  | ZeroDivisionError string
  | OtherException string

fun exn_str :: "exn \<Rightarrow> string" where
  "exn_str (ValueError m) = m"
| "exn_str (RuntimeError m) = m"
| "exn_str (ImportError m) = m"
| "exn_str (CalledProcessError m) = m"
| "exn_str (FileNotFoundError m) = m"
| "exn_str (ZeroDivisionError m) = m"
| "exn_str (OtherException m) = m"

text \<open>\<open>s.endswith(suffix)\<close>, \<open>s.replace(old, new)\<close> for a non-empty \<open>old\<close>, and \<open>str(i)\<close>.\<close>

definition endswith :: "string \<Rightarrow> string \<Rightarrow> bool" where
  "endswith s suffix =
     (length suffix \<le> length s \<and> drop (length s - length suffix) s = suffix)"


definition str_int :: "int \<Rightarrow> string" where
  "str_int i = (if i < 0 then ''-'' @ str_nat (nat (- i)) else str_nat (nat i))"


section \<open>Speech synthesis (\<open>src/pipeline/audio_synth.py\<close>)\<close>


text \<open>What \<open>synthesize\<close> does besides returning: the trace of its steps.\<close>

datatype engine = Pyttsx3 | Gtts

datatype event = MakeDirs string | Attempt engine | Warning string









text \<open>
  \<open>get_audio_duration\<close>. \<open>wave_header\<close> is \<open>wave.open\<close> with \<open>getnframes\<close> and
  \<open>getframerate\<close>; \<open>ffprobe_stdout\<close> is the \<open>subprocess.run\<close> of ffprobe with \<open>check=True\<close>;
  \<open>parse_float\<close> is \<open>float\<close> on a string (\<open>None\<close>: a \<open>ValueError\<close>). Both handlers are a bare
  \<open>except:\<close>. The durations are the rational numbers the floats stand for.
\<close>

record probe_env =
  wave_header :: "string \<Rightarrow> exn + int \<times> int"
  ffprobe_stdout :: "string \<Rightarrow> exn + string"
  parse_float :: "string \<Rightarrow> rat option"

definition duration_from_wave :: "probe_env \<Rightarrow> string \<Rightarrow> exn + rat" where
  "duration_from_wave env audio_path =
     (case wave_header env audio_path of
        Inl e \<Rightarrow> Inl e
      | Inr (frames, sample_rate) \<Rightarrow>
          if sample_rate = 0 then Inl (ZeroDivisionError ''float division by zero'')
          else Inr (of_int frames / of_int sample_rate))"

definition duration_from_ffprobe :: "probe_env \<Rightarrow> string \<Rightarrow> exn + rat" where
  "duration_from_ffprobe env audio_path =
     (case ffprobe_stdout env audio_path of
        Inl e \<Rightarrow> Inl e
      | Inr out \<Rightarrow>
          (case parse_float env (strip out) of
             None \<Rightarrow> Inl (ValueError ''could not convert string to float'')
           | Some d \<Rightarrow> Inr d))"

definition get_audio_duration :: "probe_env \<Rightarrow> string \<Rightarrow> exn + rat" where
  "get_audio_duration env audio_path =
     (case duration_from_wave env audio_path of
        Inr d \<Rightarrow> Inr d
      | Inl e \<Rightarrow>
          (case duration_from_ffprobe env audio_path of
             Inr d \<Rightarrow> Inr d
           | Inl e2 \<Rightarrow> Inr 0))"

section \<open>The assembler (\<open>src/pipeline/assembler.py\<close>)\<close>

text \<open>
  A directory: its files and its subdirectories by name. \<open>os.walk(top)\<close> yields the
  directory \<open>top\<close> with its file names, then walks each subdirectory; on a path that is not
  a directory it yields nothing.
\<close>

datatype dir_tree = Dir "string list" "(string \<times> dir_tree) list"

fun walk :: "string \<Rightarrow> dir_tree \<Rightarrow> (string \<times> string list) list" where
  "walk dirpath (Dir files subs) =
     (dirpath, files) # concat (map (\<lambda>p. walk (path_join dirpath (fst p)) (snd p)) subs)"

definition walk_dir :: "string \<Rightarrow> dir_tree option \<Rightarrow> (string \<times> string list) list" where
  "walk_dir frames_dir t = (case t of None \<Rightarrow> [] | Some d \<Rightarrow> walk frames_dir d)"

text \<open>\<open>f.lower()\<close> (on code points below 256) and the test of line 18.\<close>

definition py_lower_char :: "char \<Rightarrow> char" where
  "py_lower_char c =
     (let n = (of_char c :: nat)
      in if (65 \<le> n \<and> n \<le> 90) \<or> (192 \<le> n \<and> n \<le> 214) \<or> (216 \<le> n \<and> n \<le> 222)
         then char_of (n + 32) else c)"

definition is_image_name :: "string \<Rightarrow> bool" where
  "is_image_name f =
     (let l = map py_lower_char f
      in endswith l ''.png'' \<or> endswith l ''.jpg'' \<or> endswith l ''.jpeg'')"

text \<open>
  \<open>sorted(frames)\<close>: strings are compared code point by code point, a proper prefix
  coming first; the sort is an insertion sort (equal strings are indistinguishable, so the
  result is the one of any sort).
\<close>

fun str_le :: "string \<Rightarrow> string \<Rightarrow> bool" where
  "str_le [] ys = True"
| "str_le (x # xs) [] = False"
| "str_le (x # xs) (y # ys) =
     ((of_char x :: nat) < of_char y \<or> (x = y \<and> str_le xs ys))"

fun insert_sorted :: "string \<Rightarrow> string list \<Rightarrow> string list" where
  "insert_sorted x [] = [x]"
| "insert_sorted x (y # ys) = (if str_le x y then x # y # ys else y # insert_sorted x ys)"

definition py_sorted :: "string list \<Rightarrow> string list" where
  "py_sorted xs = foldr insert_sorted xs []"

text \<open>Lines 15-20: the image files of the whole tree, sorted by path.\<close>

definition collect_frames :: "string \<Rightarrow> dir_tree option \<Rightarrow> string list" where
  "collect_frames frames_dir t =
     py_sorted (concat (map (\<lambda>(dirpath, files). map (path_join dirpath) (filter is_image_name files))
                       (walk_dir frames_dir t)))"

text \<open>
  The tools: \<open>check_ffmpeg\<close> is the result of \<open>_check_ffmpeg()\<close>, \<open>mkdtemp\<close> the directory
  \<open>tempfile.mkdtemp()\<close> returns, \<open>convert_frame src dst\<close> the three PIL calls of lines 28-30
  and \<open>run_ffmpeg\<close> is \<open>subprocess.check_call\<close>. The trace lists what was run.
\<close>

record mux_env =
  check_ffmpeg :: bool
  mkdtemp :: string
  convert_frame :: "string \<Rightarrow> string \<Rightarrow> exn option"
  run_ffmpeg :: "string list \<Rightarrow> exn option"

datatype mux_event =
    FfmpegVersion
  | SaveFrame string string
  | RunCommand "string list"
  | RmTree string

definition NoFramesError :: "string \<Rightarrow> exn" where
  "NoFramesError frames_dir = ValueError (''No image frames found in '' @ frames_dir)"

definition MissingToolError :: exn where
  "MissingToolError =
     RuntimeError (''ffmpeg not found on PATH. Install ffmpeg and ensure it'' @ [CHR 0x27] @
                   ''s available in PATH.'')"

text \<open>The loop of lines 27-30, from index \<open>idx\<close>; it ends at the first exception.\<close>

fun save_frames ::
  "mux_env \<Rightarrow> string \<Rightarrow> nat \<Rightarrow> string list \<Rightarrow> exn option \<times> mux_event list" where
  "save_frames env tmpdir idx [] = (None, [])"
| "save_frames env tmpdir idx (src # rest) =
     (let dst = path_join tmpdir (frame_name idx)
      in case convert_frame env src dst of
           Some e \<Rightarrow> (Some e, [])
         | None \<Rightarrow> (case save_frames env tmpdir (Suc idx) rest of
                      (r, evs) \<Rightarrow> (r, SaveFrame src dst # evs)))"

definition ffmpeg_command :: "string \<Rightarrow> string option \<Rightarrow> string \<Rightarrow> int \<Rightarrow> string list" where
  "ffmpeg_command tmpdir audio_file out_path fps =
     [''ffmpeg'', ''-y'', ''-r'', str_int fps, ''-i'', path_join tmpdir ''frame_%06d.png''] @
     (case audio_file of
        None \<Rightarrow> []
      | Some a \<Rightarrow> if a \<noteq> [] then [''-i'', a, ''-c:a'', ''aac''] else []) @
     [''-c:v'', ''libx264'', ''-pix_fmt'', ''yuv420p'', ''-shortest'', out_path]"

definition assemble ::
  "mux_env \<Rightarrow> string \<Rightarrow> dir_tree option \<Rightarrow> string option \<Rightarrow> string \<Rightarrow> int \<Rightarrow>
   (exn + unit) \<times> mux_event list" where
  "assemble env frames_dir t audio_file out_path fps =
     (let frames = collect_frames frames_dir t
      in if frames = [] then (Inl (NoFramesError frames_dir), [])
         else if \<not> check_ffmpeg env then (Inl MissingToolError, [FfmpegVersion])
         else
           let tmpdir = mkdtemp env
           in case save_frames env tmpdir 1 frames of
                (Some e, evs) \<Rightarrow> (Inl e, FfmpegVersion # evs @ [RmTree tmpdir])
              | (None, evs) \<Rightarrow>
                  let cmd = ffmpeg_command tmpdir audio_file out_path fps
                  in (case run_ffmpeg env cmd of
                        Some e \<Rightarrow> Inl e
                      | None \<Rightarrow> Inr (),
                      FfmpegVersion # evs @ [RunCommand cmd, RmTree tmpdir]))"

section \<open>Audio normalization (\<open>_normalize_audio\<close> in \<open>src/pipeline/audio_synth.py\<close>)\<close>

text \<open>
  A WAV file as the \<open>wave\<close> module reads and writes it: the parameters and the bytes of the
  frames. The number of frames of a file is the number of bytes divided by the bytes of one
  frame (\<open>writeframes\<close> writes this number into the header); the duration is the number of
  frames divided by the frame rate.
\<close>

record wav_file =
  nchannels :: nat
  sampwidth :: nat
  framerate :: nat
  frames :: "nat list"

definition nframes :: "wav_file \<Rightarrow> nat" where
  "nframes w = length (frames w) div (sampwidth w * nchannels w)"

definition wav_duration :: "wav_file \<Rightarrow> rat" where
  "wav_duration w = of_nat (nframes w) / of_nat (framerate w)"

text \<open>
  The numeric libraries are outside the repository and compute with floats; they are
  parameters. For \<open>audioop\<close> these are its four functions on byte strings (\<open>ao_mul\<close> takes the
  measured RMS, from which the code computes the factor \<open>3000 / rms\<close>). In the numpy branch
  the samples are values of a type \<open>'v\<close>: \<open>np_int16\<close> and \<open>np_uint8\<close> decode a sample from its
  bytes, \<open>np_mean2\<close> is the mean of the two channels, \<open>np_silent\<close> says that the RMS of the
  samples is 0, and \<open>np_gain\<close> gives the two bytes of a sample after the gain \<open>0.3 / rms\<close>,
  the clipping and the conversion to \<open>int16\<close>.
\<close>

record 'v audio_lib =
  audioop_available :: bool
  numpy_available :: bool
  ao_tomono :: "nat list \<Rightarrow> nat \<Rightarrow> exn + nat list"
  ao_rms :: "nat list \<Rightarrow> nat \<Rightarrow> exn + nat"
  ao_mul :: "nat list \<Rightarrow> nat \<Rightarrow> nat \<Rightarrow> exn + nat list"
  ao_tostereo :: "nat list \<Rightarrow> nat \<Rightarrow> exn + nat list"
  np_int16 :: "nat \<Rightarrow> nat \<Rightarrow> 'v"
  np_uint8 :: "nat \<Rightarrow> 'v"
  np_mean2 :: "'v \<Rightarrow> 'v \<Rightarrow> 'v"
  np_silent :: "'v list \<Rightarrow> bool"
  np_gain :: "'v list \<Rightarrow> 'v \<Rightarrow> nat \<times> nat"

text \<open>What happens to the file: it is left as it was, or written anew.\<close>

datatype normalized = Untouched | Rewritten wav_file

text \<open>A list taken two elements at a time (an element left over is dropped).\<close>

fun pairs :: "'a list \<Rightarrow> ('a \<times> 'a) list" where
  "pairs (x # y # zs) = (x, y) # pairs zs"
| "pairs zs = []"

text \<open>
  Lines 145-179, the branch without \<open>audioop\<close>. \<open>np.frombuffer\<close> raises on a buffer that is
  not a whole number of 16-bit samples and \<open>reshape(-1, 2)\<close> on an odd number of samples.
  \<open>Inr None\<close> is a \<open>return\<close> that writes nothing.
\<close>

definition normalize_numpy :: "'v audio_lib \<Rightarrow> wav_file \<Rightarrow> exn + wav_file option" where
  "normalize_numpy lib w =
     (if \<not> numpy_available lib then Inl (ImportError ''No module named numpy'')
      else if sampwidth w \<noteq> 2 \<and> sampwidth w \<noteq> 1 then Inr None
      else if sampwidth w = 2 \<and> odd (length (frames w))
      then Inl (ValueError ''buffer size must be a multiple of element size'')
      else
        let audio_data = (if sampwidth w = 2
                          then map (\<lambda>(lo, hi). np_int16 lib lo hi) (pairs (frames w))
                          else map (np_uint8 lib) (frames w))
        in if nchannels w = 2 \<and> odd (length audio_data)
           then Inl (ValueError ''cannot reshape array'')
           else
             let mono = (if nchannels w = 2
                         then map (\<lambda>(l, r). np_mean2 lib l r) (pairs audio_data)
                         else audio_data)
             in if np_silent lib mono then Inr None
                else Inr (Some \<lparr>nchannels = 1, sampwidth = 2, framerate = framerate w,
                                frames = concat (map (\<lambda>v. case np_gain lib mono v of
                                                           (lo, hi) \<Rightarrow> [lo, hi]) mono)\<rparr>))"

text \<open>Lines 181-210, the branch with \<open>audioop\<close>.\<close>

definition normalize_audioop :: "'v audio_lib \<Rightarrow> wav_file \<Rightarrow> exn + wav_file option" where
  "normalize_audioop lib w =
     (case (if nchannels w = 2 then ao_tomono lib (frames w) (sampwidth w)
            else Inr (frames w)) of
        Inl e \<Rightarrow> Inl e
      | Inr mono_frames \<Rightarrow>
          (case ao_rms lib mono_frames (sampwidth w) of
             Inl e \<Rightarrow> Inl e
           | Inr current_rms \<Rightarrow>
               if current_rms = 0 then Inr None
               else
                 (case ao_mul lib mono_frames (sampwidth w) current_rms of
                    Inl e \<Rightarrow> Inl e
                  | Inr normalized_mono \<Rightarrow>
                      (case (if nchannels w = 2
                             then ao_tostereo lib normalized_mono (sampwidth w)
                             else Inr normalized_mono) of
                         Inl e \<Rightarrow> Inl e
                       | Inr normalized_frames \<Rightarrow>
                           Inr (Some (w\<lparr>frames := normalized_frames\<rparr>))))))"

text \<open>
  \<open>_normalize_audio\<close>: the file as \<open>wave.open\<close> reads it (or the exception it raises), what
  becomes of it, and the warnings printed. The whole body is inside \<open>try\<close> with
  \<open>except Exception\<close>.
\<close>

definition normalize_warning :: "exn \<Rightarrow> string" where
  "normalize_warning e = ''Warning: Audio normalization failed: '' @ exn_str e"

definition normalize_audio ::
  "'v audio_lib \<Rightarrow> exn + wav_file \<Rightarrow> normalized \<times> string list" where
  "normalize_audio lib file =
     (case file of
        Inl e \<Rightarrow> (Untouched, [normalize_warning e])
      | Inr w \<Rightarrow>
          if frames w = [] then (Untouched, [])
          else
            (case (if \<not> audioop_available lib then normalize_numpy lib w
                   else normalize_audioop lib w) of
               Inl e \<Rightarrow> (Untouched, [normalize_warning e])
             | Inr None \<Rightarrow> (Untouched, [])
             | Inr (Some w') \<Rightarrow> (Rewritten w', [])))"

section \<open>Properties of the string functions\<close>

lemma dropWhile_all_Nil: "(\<forall>x \<in> set (dropWhile P xs). P x) \<longleftrightarrow> dropWhile P xs = []"
proof
  assume a: "\<forall>x \<in> set (dropWhile P xs). P x"
  show "dropWhile P xs = []"
  proof (rule ccontr)
    assume n: "dropWhile P xs \<noteq> []"
    then have "\<not> P (hd (dropWhile P xs))" by (rule hd_dropWhile)
    moreover from n have "hd (dropWhile P xs) \<in> set (dropWhile P xs)" by simp
    ultimately show False using a by blast
  qed
next
  assume "dropWhile P xs = []"
  then show "\<forall>x \<in> set (dropWhile P xs). P x" by (simp del: dropWhile_eq_Nil_conv)
qed

lemma strip_Nil_iff: "strip s = [] \<longleftrightarrow> (\<forall>c \<in> set s. is_space c)"
  by (simp add: strip_def dropWhile_all_Nil)

lemma int_of_digits_snoc: "int_of_digits (ds @ [c]) = 10 * int_of_digits ds + ((of_char c :: nat) - 48)"
  by (simp add: int_of_digits_def)

lemma of_char_digit_char: "d < 10 \<Longrightarrow> (of_char (digit_char d) :: nat) = 48 + d"
  by (simp add: digit_char_def)

lemma int_of_digits_str_nat: "int_of_digits (str_nat n) = n"
proof (induction n rule: str_nat.induct)
  case (1 n)
  show ?case
  proof (cases "n < 10")
    case True
    then show ?thesis
      by (subst str_nat.simps) (simp add: int_of_digits_def of_char_digit_char)
  next
    case False
    then have "int_of_digits (str_nat (n div 10)) = n div 10" using 1 by simp
    with False show ?thesis
      by (subst str_nat.simps) (simp add: int_of_digits_snoc of_char_digit_char)
  qed
qed

lemma int_of_digits_zeros: "int_of_digits (replicate k (CHR ''0'') @ s) = int_of_digits s"
proof -
  have "foldl (\<lambda>acc c. 10 * acc + ((of_char c :: nat) - 48)) 0 (replicate k (CHR ''0'')) = 0"
    by (induction k) simp_all
  then show ?thesis by (simp add: int_of_digits_def)
qed

lemma int_of_digits_zero_pad: "int_of_digits (zero_pad w n) = n"
  by (simp add: zero_pad_def int_of_digits_zeros int_of_digits_str_nat)

lemma zero_pad_inj: "zero_pad w m = zero_pad w n \<Longrightarrow> m = n"
  by (metis int_of_digits_zero_pad)

lemma scene_id_of_inj: "scene_id_of m = scene_id_of n \<Longrightarrow> m = n"
  by (simp add: scene_id_of_def zero_pad_inj)


section \<open>Properties of the parser\<close>

lemma scene_title_of_not_Nil: "scene_title_of n \<noteq> []"
  by (simp add: scene_title_of_def)

lemma finalize_scene_description:
  "description (finalize_scene sc n) = (if description sc = [] then scene_title_of n else description sc)"
  by (simp add: finalize_scene_def Let_def split: optional.splits)

lemma finalize_scene_visual_prompts:
  "visual_prompts (finalize_scene sc n) =
     (if visual_prompts sc = [] then [description (finalize_scene sc n)] else visual_prompts sc)"
  by (simp add: finalize_scene_def Let_def split: optional.splits)

lemma finalize_scene_start_cue:
  "start_cue (finalize_scene sc n) = (case start_cue sc of Present v \<Rightarrow> Present v | _ \<Rightarrow> Absent)"
  by (simp add: finalize_scene_def Let_def split: optional.splits)

lemma finalize_scene_duration_hint:
  "duration_hint (finalize_scene sc n) = (case duration_hint sc of Present v \<Rightarrow> Present v | _ \<Rightarrow> Absent)"
  by (simp add: finalize_scene_def Let_def split: optional.splits)


lemma finalize_scene_finalized: "finalized (finalize_scene sc n)"
  by (simp add: finalized_def finalize_scene_description finalize_scene_visual_prompts
      finalize_scene_start_cue finalize_scene_duration_hint scene_title_of_not_Nil
      split: optional.splits)

lemma close_scene_finalized:
  "list_all finalized (scenes st) \<Longrightarrow> list_all finalized (close_scene st)"
  by (simp add: close_scene_def finalize_scene_finalized split: option.splits)

lemma process_line_scenes:
  "scenes (process_line st raw) = scenes st \<or> scenes (process_line st raw) = close_scene st"
  by (simp add: process_line_def Let_def split: option.splits prod.splits)

lemma process_line_finalized:
  "list_all finalized (scenes st) \<Longrightarrow> list_all finalized (scenes (process_line st raw))"
  using process_line_scenes[of st raw] close_scene_finalized[of st] by auto

lemma scan_finalized_aux:
  "list_all finalized (scenes st) \<Longrightarrow> list_all finalized (scenes (foldl process_line st ls))"
  by (induction ls arbitrary: st) (simp_all add: process_line_finalized)

lemma scan_lines_finalized: "list_all finalized (close_scene (scan_lines ls))"
  by (rule close_scene_finalized) (simp add: scan_lines_def scan_finalized_aux init_pstate_def)







lemma close_scene_not_Nil: "current_scene st \<noteq> None \<Longrightarrow> close_scene st \<noteq> []"
  by (auto simp: close_scene_def)







lemma parse_script_blank: "strip s = [] \<Longrightarrow> parse_script s = Inl EmptyInputError"
  by (simp add: parse_script_def)








lemma iprefix_hd: "iprefix (p # ps) l \<Longrightarrow> l \<noteq> [] \<and> ascii_lower (hd l) = p"
  by (cases l) (auto simp: iprefix_def)

lemma narration_not_scene:
  assumes "narration_match line = Some g"
  shows "line \<noteq> []" and "scene_match line = None"
proof -
  from assms have n: "iprefix ''narration:'' line"
    by (simp add: narration_match_def split: if_splits)
  then show "line \<noteq> []" using iprefix_hd by blast
  from n have "ascii_lower (hd line) = CHR ''n''" using iprefix_hd by blast
  then have "\<not> iprefix ''scene'' line" using iprefix_hd by fastforce
  then show "scene_match line = None" by (simp add: scene_match_def)
qed

text \<open>
  Claim C8. A line that matches the narration pattern while a scene is open sets the
  description of that scene to the text after \<open>Narration:\<close> (stripped), whatever the
  description was, and appends the same text to the visual prompts exactly when they are
  still empty; nothing else of the state changes.
\<close>

theorem narration_overwrites_description:
  assumes "current_scene st = Some cs"
    and "narration_match (strip raw) = Some g"
  shows "process_line st raw =
         st\<lparr>current_scene := Some (cs\<lparr>description := strip g,
               visual_prompts := (if visual_prompts cs = [] then visual_prompts cs @ [strip g]
                                  else visual_prompts cs)\<rparr>)\<rparr>"
  using assms narration_not_scene[OF assms(2)]
  by (simp add: process_line_def content_line_def Let_def)

theorem narration_overwrites_description_witness:
  "current_scene (process_line init_pstate ''Scene 1: Old title'') =
     Some (new_scene ''scene_01'' ''Old title'') \<and>
   narration_match (strip ''  Narration:  A quiet street. '') = Some ''A quiet street.'' \<and>
   process_line (process_line init_pstate ''Scene 1: Old title'') ''  Narration:  A quiet street. '' =
     \<lparr>scenes = [], current_scene = Some ((new_scene ''scene_01'' ''Old title'')
        \<lparr>description := ''A quiet street.'', visual_prompts := [''A quiet street.'']\<rparr>),
      scene_counter = 1\<rparr>"
proof -
  have a: "current_scene (process_line init_pstate ''Scene 1: Old title'') =
     Some (new_scene ''scene_01'' ''Old title'')" by code_simp
  have b: "narration_match (strip ''  Narration:  A quiet street. '') = Some ''A quiet street.''"
    by code_simp
  have c: "process_line init_pstate ''Scene 1: Old title'' =
    \<lparr>scenes = [], current_scene = Some (new_scene ''scene_01'' ''Old title''), scene_counter = 1\<rparr>"
    by code_simp
  have d: "strip ''A quiet street.'' = ''A quiet street.''" by code_simp
  show ?thesis
    using narration_overwrites_description[OF a b] a b
    by (simp add: c d new_scene_def)
qed

lemma finalized_sources_close:
  "list_all (\<lambda>s. \<exists>sc n. s = finalize_scene sc n) (scenes st) \<Longrightarrow>
   list_all (\<lambda>s. \<exists>sc n. s = finalize_scene sc n) (close_scene st)"
  unfolding close_scene_def by (cases "current_scene st") (simp_all, blast)

lemma finalized_sources_foldl:
  "list_all (\<lambda>s. \<exists>sc n. s = finalize_scene sc n) (scenes st) \<Longrightarrow>
   list_all (\<lambda>s. \<exists>sc n. s = finalize_scene sc n) (scenes (foldl process_line st ls))"
proof (induction ls arbitrary: st)
  case Nil
  then show ?case by simp
next
  case (Cons a ls)
  have "list_all (\<lambda>s. \<exists>sc n. s = finalize_scene sc n) (scenes (process_line st a))"
    using process_line_scenes[of st a] finalized_sources_close[OF Cons.prems] Cons.prems
    by metis
  then show ?case using Cons.IH by simp
qed

lemma parse_script_Inr:
  "parse_script s = Inr result \<Longrightarrow> result = close_scene (scan_lines (split_nl s))"
  by (auto simp: parse_script_def return_scenes_def split: if_splits)

text \<open>
  Claim C7. Every scene \<open>parse_script\<close> returns has been finalized: it is the result
  of \<open>finalize_scene\<close>, its description is not empty, its visual prompts are not empty, and
  neither \<open>start_cue\<close> nor \<open>duration_hint\<close> is present with the value \<open>None\<close>. Finalization
  fills an empty description with \<open>Scene n\<close> for the counter \<open>n\<close> it is given, fills empty
  visual prompts with the one-element list of the (filled) description, and removes an
  optional key that is unset.
\<close>

theorem finalization_invariant:
  "(parse_script script_text = Inr result \<longrightarrow>
      (\<forall>s \<in> set result.
          (\<exists>sc n. s = finalize_scene sc n) \<and>
          description s \<noteq> [] \<and> visual_prompts s \<noteq> [] \<and>
          start_cue s \<noteq> Null \<and> duration_hint s \<noteq> Null)) \<and>
   description (finalize_scene sc n) =
      (if description sc = [] then scene_title_of n else description sc) \<and>
   visual_prompts (finalize_scene sc n) =
      (if visual_prompts sc = [] then [description (finalize_scene sc n)]
       else visual_prompts sc) \<and>
   start_cue (finalize_scene sc n) =
      (case start_cue sc of Present v \<Rightarrow> Present v | _ \<Rightarrow> Absent) \<and>
   duration_hint (finalize_scene sc n) =
      (case duration_hint sc of Present v \<Rightarrow> Present v | _ \<Rightarrow> Absent)"
proof -
  have main: "\<forall>s \<in> set result.
          (\<exists>sc n. s = finalize_scene sc n) \<and>
          description s \<noteq> [] \<and> visual_prompts s \<noteq> [] \<and>
          start_cue s \<noteq> Null \<and> duration_hint s \<noteq> Null"
    if p: "parse_script script_text = Inr result"
  proof -
    have r: "result = close_scene (scan_lines (split_nl script_text))"
      using p by (rule parse_script_Inr)
    have "list_all (\<lambda>s. \<exists>sc n. s = finalize_scene sc n) (scenes (scan_lines (split_nl script_text)))"
      unfolding scan_lines_def by (rule finalized_sources_foldl) (simp add: init_pstate_def)
    then have 1: "list_all (\<lambda>s. \<exists>sc n. s = finalize_scene sc n) result"
      unfolding r by (rule finalized_sources_close)
    have 2: "list_all finalized result"
      unfolding r by (rule scan_lines_finalized)
    show ?thesis
    proof
      fix s assume s: "s \<in> set result"
      from 1 s have a: "\<exists>sc n. s = finalize_scene sc n" by (simp add: list_all_iff)
      from 2 s have b: "finalized s" by (simp add: list_all_iff)
      from a b show "(\<exists>sc n. s = finalize_scene sc n) \<and>
          description s \<noteq> [] \<and> visual_prompts s \<noteq> [] \<and>
          start_cue s \<noteq> Null \<and> duration_hint s \<noteq> Null"
        unfolding finalized_def by (intro conjI) simp_all
    qed
  qed
  have d: "description (finalize_scene sc n) =
      (if description sc = [] then scene_title_of n else description sc)"
    by (rule finalize_scene_description)
  have v: "visual_prompts (finalize_scene sc n) =
      (if visual_prompts sc = [] then [description (finalize_scene sc n)]
       else visual_prompts sc)"
    by (rule finalize_scene_visual_prompts)
  have c: "start_cue (finalize_scene sc n) =
      (case start_cue sc of Present v \<Rightarrow> Present v | _ \<Rightarrow> Absent)"
    by (rule finalize_scene_start_cue)
  have h: "duration_hint (finalize_scene sc n) =
      (case duration_hint sc of Present v \<Rightarrow> Present v | _ \<Rightarrow> Absent)"
    by (rule finalize_scene_duration_hint)
  from main d v c h show ?thesis by blast
qed

theorem finalization_invariant_witness:
  "parse_script ''Alice: Hello!\<newline>duration: 5.5 seconds'' =
     Inr [\<lparr>scene_id = ''scene_01'', start_cue = Absent, description = ''Scene 1'',
           characters = [''Alice''], dialogue = [(''Alice'', ''Hello!'')],
           visual_prompts = [''Scene 1''], duration_hint = Present (11 / 2)\<rparr>] \<and>
   (\<exists>sc n. \<lparr>scene_id = ''scene_01'', start_cue = Absent, description = ''Scene 1'',
           characters = [''Alice''], dialogue = [(''Alice'', ''Hello!'')],
           visual_prompts = [''Scene 1''], duration_hint = Present (11 / 2)\<rparr> =
        finalize_scene sc n)"
proof -
  let ?T = "''Alice: Hello!\<newline>duration: 5.5 seconds''"
  let ?c1 = "\<lparr>scene_id = ''scene_01'', start_cue = Null, description = '''',
           characters = [''Alice''], dialogue = [(''Alice'', ''Hello!'')],
           visual_prompts = [], duration_hint = Null\<rparr>"
  let ?c2 = "\<lparr>scene_id = ''scene_01'', start_cue = Null, description = '''',
           characters = [''Alice''], dialogue = [(''Alice'', ''Hello!'')],
           visual_prompts = [], duration_hint = Present (11 / 2)\<rparr>"
  let ?S = "\<lparr>scene_id = ''scene_01'', start_cue = Absent, description = ''Scene 1'',
           characters = [''Alice''], dialogue = [(''Alice'', ''Hello!'')],
           visual_prompts = [''Scene 1''], duration_hint = Present (11 / 2)\<rparr>"
  have s0: "(?T = [] \<or> strip ?T = []) = False" by code_simp
  have s1: "split_nl ?T = [''Alice: Hello!'', ''duration: 5.5 seconds'']" by code_simp
  have s2: "process_line init_pstate ''Alice: Hello!'' =
      \<lparr>scenes = [], current_scene = Some ?c1, scene_counter = 1\<rparr>" by code_simp
  have s3: "process_line \<lparr>scenes = [], current_scene = Some ?c1, scene_counter = 1\<rparr>
      ''duration: 5.5 seconds'' = \<lparr>scenes = [], current_scene = Some ?c2, scene_counter = 1\<rparr>"
    by code_simp
  have s4: "close_scene \<lparr>scenes = [], current_scene = Some ?c2, scene_counter = 1\<rparr> = [?S]"
    by code_simp
  have s5: "return_scenes [?S] = Inr [?S]" by (simp add: return_scenes_def)
  have p: "parse_script ?T = Inr [?S]"
    by (simp only: parse_script_def scan_lines_def s0 s1 foldl_Cons foldl_Nil s2 s3 s4 s5 if_False)
  from finalization_invariant[of ?T "[?S]"] p show ?thesis by simp
qed

lemma parse_script_never_empty: "parse_script s \<noteq> Inr []"
  by (simp add: parse_script_def return_scenes_def)

lemma parse_script_NoScenes_iff:
  "parse_script s = Inl NoScenesFoundError \<longleftrightarrow>
     s \<noteq> [] \<and> strip s \<noteq> [] \<and> close_scene (scan_lines (split_nl s)) = []"
  by (auto simp: parse_script_def return_scenes_def)

lemma parse_script_Empty_iff:
  "parse_script s = Inl EmptyInputError \<longleftrightarrow> s = [] \<or> (\<forall>c \<in> set s. is_space c)"
proof (cases "strip s = []")
  case True
  then show ?thesis using strip_Nil_iff[of s] by (simp add: parse_script_def)
next
  case False
  then have "s \<noteq> []" by (auto simp: strip_def)
  with False show ?thesis
    using strip_Nil_iff[of s] by (simp add: parse_script_def return_scenes_def)
qed

text \<open>
  Claim C4. \<open>parse_script\<close> fails with \<open>EmptyInputError\<close> exactly when the text is empty
  or consists of white space only. Its last check fails with \<open>NoScenesFoundError\<close> on an
  empty list of finished scenes, so \<open>parse_script\<close> fails with that error exactly when the
  text is not blank and the scan ends with no scene (by \<open>scan_nonblank_result\<close> that never
  happens). A text of blank lines and white space fails with one of the two errors, and an
  empty list of scenes is never returned.
\<close>

theorem parse_script_failures:
  "(parse_script s = Inl EmptyInputError \<longleftrightarrow> s = [] \<or> (\<forall>c \<in> set s. is_space c)) \<and>
   return_scenes [] = Inl NoScenesFoundError \<and>
   (parse_script s = Inl NoScenesFoundError \<longleftrightarrow>
      s \<noteq> [] \<and> strip s \<noteq> [] \<and> close_scene (scan_lines (split_nl s)) = []) \<and>
   ((\<forall>c \<in> set s. is_space c) \<longrightarrow>
      parse_script s = Inl EmptyInputError \<or> parse_script s = Inl NoScenesFoundError) \<and>
   parse_script s \<noteq> Inr []"
proof -
  have 1: "parse_script s = Inl EmptyInputError \<longleftrightarrow> s = [] \<or> (\<forall>c \<in> set s. is_space c)"
    by (rule parse_script_Empty_iff)
  have 2: "return_scenes [] = Inl NoScenesFoundError"
    by (simp add: return_scenes_def)
  have 3: "parse_script s = Inl NoScenesFoundError \<longleftrightarrow>
      s \<noteq> [] \<and> strip s \<noteq> [] \<and> close_scene (scan_lines (split_nl s)) = []"
    by (rule parse_script_NoScenes_iff)
  have 4: "parse_script s \<noteq> Inr []"
    by (rule parse_script_never_empty)
  from 1 2 3 4 show ?thesis by blast
qed

theorem parse_script_failures_witness:
  "list_all is_space ''  \<newline> '' \<and>
   parse_script ''  \<newline> '' = Inl EmptyInputError \<and>
   parse_script ''  \<newline> '' \<noteq> Inr []"
proof -
  have a: "\<forall>c \<in> set ''  \<newline> ''. is_space c" by (simp add: is_space_def)
  from parse_script_failures[of "''  \<newline> ''"] a show ?thesis
    by (simp add: list_all_iff)
qed




section \<open>Properties of the renderer\<close>


























section \<open>Properties of speech synthesis\<close>

lemma strip_Nil_imp: "txt = [] \<Longrightarrow> strip txt = []"
  by (simp add: strip_def)

text \<open>
  Claim C10. \<open>get_audio_duration\<close> never raises: for every path and every behaviour of
  the tools it returns a number. When reading the WAV header fails it returns what the
  ffprobe fallback gives, and when that fails too it returns 0.
\<close>

theorem get_audio_duration_total:
  "(\<exists>d. get_audio_duration env audio_path = Inr d) \<and>
   (\<forall>d. duration_from_wave env audio_path = Inr d \<longrightarrow>
          get_audio_duration env audio_path = Inr d) \<and>
   (\<forall>e. duration_from_wave env audio_path = Inl e \<longrightarrow>
      (\<forall>d. duration_from_ffprobe env audio_path = Inr d \<longrightarrow>
             get_audio_duration env audio_path = Inr d) \<and>
      (\<forall>e2. duration_from_ffprobe env audio_path = Inl e2 \<longrightarrow>
             get_audio_duration env audio_path = Inr 0))"
  by (simp add: get_audio_duration_def split: sum.splits)

theorem get_audio_duration_total_witness:
  "duration_from_wave
     \<lparr>wave_header = (\<lambda>p. Inl (OtherException ''file does not start with RIFF id'')),
      ffprobe_stdout = (\<lambda>p. Inl (FileNotFoundError ''ffprobe'')),
      parse_float = (\<lambda>s. None)\<rparr> ''a.mp3'' =
     Inl (OtherException ''file does not start with RIFF id'') \<and>
   duration_from_ffprobe
     \<lparr>wave_header = (\<lambda>p. Inl (OtherException ''file does not start with RIFF id'')),
      ffprobe_stdout = (\<lambda>p. Inl (FileNotFoundError ''ffprobe'')),
      parse_float = (\<lambda>s. None)\<rparr> ''a.mp3'' = Inl (FileNotFoundError ''ffprobe'') \<and>
   get_audio_duration
     \<lparr>wave_header = (\<lambda>p. Inl (OtherException ''file does not start with RIFF id'')),
      ffprobe_stdout = (\<lambda>p. Inl (FileNotFoundError ''ffprobe'')),
      parse_float = (\<lambda>s. None)\<rparr> ''a.mp3'' = Inr 0"
proof -
  let ?env = "\<lparr>wave_header = (\<lambda>p. Inl (OtherException ''file does not start with RIFF id'')),
      ffprobe_stdout = (\<lambda>p. Inl (FileNotFoundError ''ffprobe'')),
      parse_float = (\<lambda>s. None)\<rparr>"
  have w: "duration_from_wave ?env ''a.mp3'' =
      Inl (OtherException ''file does not start with RIFF id'')"
    by (simp add: duration_from_wave_def)
  have f: "duration_from_ffprobe ?env ''a.mp3'' = Inl (FileNotFoundError ''ffprobe'')"
    by (simp add: duration_from_ffprobe_def)
  note T = get_audio_duration_total[of ?env "''a.mp3''"]
  from conjunct2[OF conjunct2[OF T]] w f
  have "get_audio_duration ?env ''a.mp3'' = Inr 0" by blast
  with w f show ?thesis by (intro conjI)
qed









section \<open>Properties of the assembler\<close>

lemma set_insert_sorted: "set (insert_sorted x ys) = insert x (set ys)"
  by (induction ys) auto

lemma set_py_sorted: "set (py_sorted xs) = set xs"
  by (induction xs) (simp_all add: py_sorted_def set_insert_sorted)

lemma py_sorted_Nil_iff: "py_sorted xs = [] \<longleftrightarrow> xs = []"
  using set_py_sorted[of xs] by (metis set_empty)

lemma set_collect_frames:
  "set (collect_frames frames_dir t) =
     {path_join dirpath f | dirpath files f.
        (dirpath, files) \<in> set (walk_dir frames_dir t) \<and> f \<in> set files \<and> is_image_name f}"
  by (auto simp: collect_frames_def set_py_sorted)

lemma walk_subdir:
  "(name, sub) \<in> set subs \<Longrightarrow>
   set (walk (path_join dirpath name) sub) \<subseteq> set (walk dirpath (Dir files subs))"
  by force

lemma collect_frames_subdir:
  assumes "(name, sub) \<in> set subs"
  shows "set (collect_frames (path_join frames_dir name) (Some sub)) \<subseteq>
         set (collect_frames frames_dir (Some (Dir files subs)))"
  using walk_subdir[OF assms, of frames_dir files]
  unfolding set_collect_frames walk_dir_def by (simp only: option.case) blast

text \<open>
  Claim C9. When the scan of the frame directory finds no image file, \<open>assemble\<close> raises
  \<open>NoFramesError\<close> and has run nothing (its trace is empty, so no video is written); when
  it finds some and ffmpeg is not available, it raises \<open>MissingToolError\<close> after the check
  of ffmpeg alone. The scan finds exactly the files, of the directory and of every
  directory below it, whose name in lower case ends in \<open>.png\<close>, \<open>.jpg\<close> or \<open>.jpeg\<close>: what is
  found in a subdirectory is found from the directory above it.
\<close>

theorem assemble_failures:
  "(collect_frames frames_dir t = [] \<longrightarrow>
      assemble env frames_dir t audio_file out_path fps = (Inl (NoFramesError frames_dir), [])) \<and>
   (collect_frames frames_dir t \<noteq> [] \<and> \<not> check_ffmpeg env \<longrightarrow>
      assemble env frames_dir t audio_file out_path fps =
        (Inl MissingToolError, [FfmpegVersion])) \<and>
   set (collect_frames frames_dir t) =
     {path_join dirpath f | dirpath files f.
        (dirpath, files) \<in> set (walk_dir frames_dir t) \<and> f \<in> set files \<and>
        (endswith (map py_lower_char f) ''.png'' \<or> endswith (map py_lower_char f) ''.jpg'' \<or>
         endswith (map py_lower_char f) ''.jpeg'')} \<and>
   ((name, sub) \<in> set subs \<longrightarrow>
      set (collect_frames (path_join frames_dir name) (Some sub)) \<subseteq>
      set (collect_frames frames_dir (Some (Dir files subs))))"
proof -
  have 1: "assemble env frames_dir t audio_file out_path fps = (Inl (NoFramesError frames_dir), [])"
    if "collect_frames frames_dir t = []"
    using that by (simp add: assemble_def)
  have 2: "assemble env frames_dir t audio_file out_path fps = (Inl MissingToolError, [FfmpegVersion])"
    if "collect_frames frames_dir t \<noteq> [] \<and> \<not> check_ffmpeg env"
    using that by (simp add: assemble_def)
  have 3: "set (collect_frames frames_dir t) =
     {path_join dirpath f | dirpath files f.
        (dirpath, files) \<in> set (walk_dir frames_dir t) \<and> f \<in> set files \<and>
        (endswith (map py_lower_char f) ''.png'' \<or> endswith (map py_lower_char f) ''.jpg'' \<or>
         endswith (map py_lower_char f) ''.jpeg'')}"
    unfolding set_collect_frames by (simp add: is_image_name_def Let_def)
  have 4: "set (collect_frames (path_join frames_dir name) (Some sub)) \<subseteq>
      set (collect_frames frames_dir (Some (Dir files subs)))"
    if "(name, sub) \<in> set subs"
    using that by (rule collect_frames_subdir)
  from 1 2 3 4 show ?thesis by (intro conjI impI)
qed

theorem assemble_failures_witness:
  "collect_frames ''frames'' (Some (Dir [''notes.txt''] [])) = [] \<and>
   assemble \<lparr>check_ffmpeg = False, mkdtemp = ''/tmp/x'', convert_frame = (\<lambda>s d. None),
             run_ffmpeg = (\<lambda>c. None)\<rparr>
      ''frames'' (Some (Dir [''notes.txt''] [])) (Some ''a.wav'') ''out.mp4'' 24 =
     (Inl (ValueError ''No image frames found in frames''), []) \<and>
   collect_frames ''frames'' (Some (Dir [] [(''scene_01'', Dir [''frame_000001.PNG''] [])])) =
     [''frames/scene_01/frame_000001.PNG''] \<and>
   assemble \<lparr>check_ffmpeg = False, mkdtemp = ''/tmp/x'', convert_frame = (\<lambda>s d. None),
             run_ffmpeg = (\<lambda>c. None)\<rparr>
      ''frames'' (Some (Dir [] [(''scene_01'', Dir [''frame_000001.PNG''] [])]))
      (Some ''a.wav'') ''out.mp4'' 24 = (Inl MissingToolError, [FfmpegVersion])"
proof -
  let ?env = "\<lparr>check_ffmpeg = False, mkdtemp = ''/tmp/x'', convert_frame = (\<lambda>s d. None),
             run_ffmpeg = (\<lambda>c. None)\<rparr>"
  let ?t0 = "Some (Dir [''notes.txt''] [])"
  let ?t1 = "Some (Dir [] [(''scene_01'', Dir [''frame_000001.PNG''] [])])"
  have h0: "collect_frames ''frames'' ?t0 = []" by code_simp
  have h1: "collect_frames ''frames'' ?t1 = [''frames/scene_01/frame_000001.PNG'']" by code_simp
  have n1: "collect_frames ''frames'' ?t1 \<noteq> [] \<and> \<not> check_ffmpeg ?env"
    by (simp add: h1)
  have m: "NoFramesError ''frames'' = ValueError ''No image frames found in frames''"
    by (simp add: NoFramesError_def)
  note T0 = assemble_failures[of "''frames''" ?t0 ?env "Some ''a.wav''" "''out.mp4''" 24]
  note T1 = assemble_failures[of "''frames''" ?t1 ?env "Some ''a.wav''" "''out.mp4''" 24]
  have a: "assemble ?env ''frames'' ?t0 (Some ''a.wav'') ''out.mp4'' 24 =
     (Inl (ValueError ''No image frames found in frames''), [])"
    using mp[OF conjunct1[OF T0] h0] by (simp only: m)
  have b: "assemble ?env ''frames'' ?t1 (Some ''a.wav'') ''out.mp4'' 24 =
     (Inl MissingToolError, [FfmpegVersion])"
    by (rule mp[OF conjunct1[OF conjunct2[OF T1]] n1])
  show ?thesis by (rule conjI[OF h0 conjI[OF a conjI[OF h1 b]]])
qed

section \<open>Properties of audio normalization\<close>

lemma length_pairs: "length (pairs xs) = length xs div 2"
  by (induction xs rule: pairs.induct) simp_all

lemma length_gain_bytes:
  "length (concat (map (\<lambda>v. case g v of (lo, hi) \<Rightarrow> [lo, hi]) xs)) = 2 * length xs"
  by (induction xs) (simp_all split: prod.splits)

lemma normalize_numpy_nframes:
  assumes "normalize_numpy lib w = Inr (Some w')"
    and "length (frames w) = sampwidth w * nchannels w * n"
  shows "nchannels w' = 1 \<and> sampwidth w' = 2 \<and> framerate w' = framerate w \<and>
         nframes w' = (if nchannels w = 2 then n else nchannels w * n)"
proof -
  from assms(1) have sw: "sampwidth w = 2 \<or> sampwidth w = 1"
    by (auto simp: normalize_numpy_def split: if_splits)
  let ?data = "if sampwidth w = 2
               then map (\<lambda>(lo, hi). np_int16 lib lo hi) (pairs (frames w))
               else map (np_uint8 lib) (frames w)"
  have ld: "length ?data = nchannels w * n"
    using sw assms(2) by (auto simp: length_pairs)
  let ?mono = "if nchannels w = 2 then map (\<lambda>(l, r). np_mean2 lib l r) (pairs ?data) else ?data"
  have lm: "length ?mono = (if nchannels w = 2 then n else nchannels w * n)"
    using ld by (simp add: length_pairs)
  from assms(1) have w': "w' = \<lparr>nchannels = 1, sampwidth = 2, framerate = framerate w,
      frames = concat (map (\<lambda>v. case np_gain lib ?mono v of (lo, hi) \<Rightarrow> [lo, hi]) ?mono)\<rparr>"
    by (simp add: normalize_numpy_def Let_def split: if_splits)
  have "length (frames w') = 2 * length ?mono"
    unfolding w' by (simp only: wav_file.simps length_gain_bytes)
  with lm have "nframes w' = (if nchannels w = 2 then n else nchannels w * n)"
    unfolding nframes_def w' by (simp split: if_splits)
  then show ?thesis unfolding w' by simp
qed

lemma normalize_audio_read_failure:
  "normalize_audio lib (Inl e) = (Untouched, [normalize_warning e])"
  by (simp add: normalize_audio_def)

lemma normalize_audio_failure_untouched:
  assumes "(if \<not> audioop_available lib then normalize_numpy lib w else normalize_audioop lib w) = Inl e"
    and "frames w \<noteq> []"
  shows "normalize_audio lib (Inr w) = (Untouched, [normalize_warning e])"
  using assms by (simp add: normalize_audio_def)

lemma normalize_audioop_params:
  assumes "normalize_audioop lib w = Inr (Some w')"
  shows "nchannels w' = nchannels w \<and> sampwidth w' = sampwidth w \<and> framerate w' = framerate w"
  using assms by (auto simp: normalize_audioop_def split: sum.splits if_splits)

text \<open>
  Claim C2 fails in the branch without \<open>audioop\<close> on a file with more than two channels:
  all samples are taken as one channel and written back as mono, so a file of 2 frames with
  3 channels comes back with 6 frames and three times the duration. (By
  \<open>normalize_numpy_nframes\<close> the number of frames is kept for one and for two channels.)
\<close>

theorem normalize_numpy_three_channels:
  "normalize_audio
     \<lparr>audioop_available = False, numpy_available = True,
      ao_tomono = (\<lambda>f w. Inr f), ao_rms = (\<lambda>f w. Inr 1), ao_mul = (\<lambda>f w r. Inr f),
      ao_tostereo = (\<lambda>f w. Inr f),
      np_int16 = (\<lambda>lo hi. lo + 256 * hi), np_uint8 = (\<lambda>b. b),
      np_mean2 = (\<lambda>l r. (l + r) div 2), np_silent = (\<lambda>xs. False),
      np_gain = (\<lambda>xs v. (v mod 256, v div 256))\<rparr>
     (Inr \<lparr>nchannels = 3, sampwidth = 2, framerate = 22050,
           frames = [1, 0, 2, 0, 3, 0, 4, 0, 5, 0, 6, 0]\<rparr>) =
     (Rewritten \<lparr>nchannels = 1, sampwidth = 2, framerate = 22050,
                 frames = [1, 0, 2, 0, 3, 0, 4, 0, 5, 0, 6, 0]\<rparr>, []) \<and>
   nframes \<lparr>nchannels = 3, sampwidth = 2, framerate = 22050,
            frames = [1, 0, 2, 0, 3, 0, 4, 0, 5, 0, 6, 0]\<rparr> = 2 \<and>
   nframes \<lparr>nchannels = 1, sampwidth = 2, framerate = 22050,
            frames = [1, 0, 2, 0, 3, 0, 4, 0, 5, 0, 6, 0]\<rparr> = 6"
  by (simp add: normalize_audio_def normalize_numpy_def nframes_def)

end
